theory Spec2Isabelle
  imports Complex_Main "HOL-Library.Char_ord" "HOL-Library.List_Lexorder"
    "HOL-Library.Product_Lexorder"
begin

section \<open>Data model of visualization.py\<close>

text \<open>
  The module takes pandas frames and Python scalars. A frame is modelled by the list of
  its rows, in row order. Numeric cells and scalars are exact rationals: sums, absolute
  values, comparisons and the one true division are the mathematical ones (rounding of
  binary floating point is outside the model). Text cells are strings, ordered as Python
  orders them (by character code, lexicographically).
\<close>

datatype timestamp = Timestamp nat nat nat
  \<comment> \<open>year, month, day of a cell of column \<open>date\<close>\<close>

type_synonym period = "nat \<times> nat"
  \<comment> \<open>a monthly period (year, month); pandas orders periods chronologically, which is
      the lexicographic order of the pair\<close>

record txn =
  date :: timestamp
  amount :: rat
  category :: string
  month :: "period option"
  \<comment> \<open>the cell of column \<open>month\<close>; \<open>None\<close> in a frame that has no such column\<close>

type_synonym budget = "string \<times> rat"
  \<comment> \<open>a row of \<open>budget_df\<close>: columns \<open>category\<close>, \<open>amount\<close>\<close>

datatype error = ZeroDivisionError

section \<open>create\_savings\_goal\_progress\<close>

record gauge_fig =
  gauge_value :: rat
  delta_reference :: rat
  axis_range :: "rat \<times> rat"
  steps :: "((rat \<times> rat) \<times> string) list"
  threshold_value :: rat
  height :: nat

definition truediv :: "rat \<Rightarrow> rat \<Rightarrow> error + rat" where
  \<comment> \<open>Python's \<open>a / b\<close>\<close>
  "truediv a b = (if b = 0 then Inl ZeroDivisionError else Inr (a / b))"

definition indicator :: "rat \<Rightarrow> rat \<Rightarrow> gauge_fig" where
  \<comment> \<open>the \<open>go.Indicator\<close> of lines 179 to 233\<close>
  "indicator savings_goal current_savings =
     \<lparr>gauge_value = current_savings,
      delta_reference = savings_goal,
      axis_range = (0, savings_goal),
      steps = [((0, savings_goal * (1 / 2)), ''red''),
               ((savings_goal * (1 / 2), savings_goal * (3 / 4)), ''yellow''),
               ((savings_goal * (3 / 4), savings_goal), ''green'')],
      threshold_value = savings_goal,
      height = 300\<rparr>"

text \<open>
  The function returns the figure; \<open>percentage\<close> is a local that the figure does not use.
  The model returns the divisions the call evaluated (dividend, divisor), in order, and
  then either the error raised or the local \<open>percentage\<close> beside the figure.
\<close>

definition create_savings_goal_progress ::
  "rat \<Rightarrow> rat \<Rightarrow> (rat \<times> rat) list \<times> (error + rat \<times> gauge_fig)" where
  "create_savings_goal_progress savings_goal current_savings =
     (if savings_goal > 0
      then (case truediv current_savings savings_goal of
              Inl e \<Rightarrow> ([(current_savings, savings_goal)], Inl e)
            | Inr q \<Rightarrow>
                ([(current_savings, savings_goal)],
                 Inr (min 100 (q * 100), indicator savings_goal current_savings)))
      else ([], Inr (0, indicator savings_goal current_savings)))"

section \<open>Frame operations\<close>

fun dropna :: "('k option \<times> 'v) list \<Rightarrow> ('k \<times> 'v) list" where
  \<comment> \<open>\<open>groupby\<close> leaves out the rows whose key is missing\<close>
  "dropna [] = []"
| "dropna ((None, v) # kvs) = dropna kvs"
| "dropna ((Some k, v) # kvs) = (k, v) # dropna kvs"

definition group_rows :: "'k \<Rightarrow> ('k \<times> 'v) list \<Rightarrow> 'v list" where
  \<comment> \<open>the values of the rows with key \<open>k\<close>, in row order\<close>
  "group_rows k kvs = map snd (filter (\<lambda>kv. fst kv = k) kvs)"

definition groupby_sum :: "('k::linorder \<times> rat) list \<Rightarrow> ('k \<times> rat) list" where
  \<comment> \<open>\<open>df.groupby(keys)['amount'].sum().reset_index()\<close>: one row per distinct key,
      keys sorted ascending\<close>
  "groupby_sum kvs =
     map (\<lambda>k. (k, sum_list (group_rows k kvs))) (sort (remdups (map fst kvs)))"

definition unique :: "'a list \<Rightarrow> 'a list" where
  \<comment> \<open>\<open>Series.unique()\<close>: the distinct values in order of first appearance\<close>
  "unique xs = rev (remdups (rev xs))"

definition abs_amount :: "txn \<Rightarrow> txn" where
  "abs_amount t = t\<lparr>amount := \<bar>amount t\<bar>\<rparr>"

section \<open>create\_spending\_pie\_chart\<close>

record pie_fig =
  labels :: "string list"
  slices :: "rat list"
  pie_title :: string
  hole :: rat
  textinfo :: string

definition create_spending_pie_chart :: "txn list \<Rightarrow> pie_fig" where
  "create_spending_pie_chart transactions_df =
     (let expenses_df = filter (\<lambda>t. amount t < 0) transactions_df;
          expenses_df = map abs_amount expenses_df;
          category_totals = groupby_sum (map (\<lambda>t. (category t, amount t)) expenses_df)
      in \<lparr>labels = map fst category_totals,
          slices = map snd category_totals,
          pie_title = ''Expenses by Category'',
          hole = 4 / 10,
          textinfo = ''percent+label''\<rparr>)"

section \<open>create\_spending\_trend\_chart\<close>

definition to_datetime :: "timestamp \<Rightarrow> timestamp" where
  \<comment> \<open>\<open>pd.to_datetime\<close> on a cell that already denotes a calendar day\<close>
  "to_datetime d = d"

fun to_period_M :: "timestamp \<Rightarrow> period" where
  "to_period_M (Timestamp y m d) = (y, m)"

definition digit :: "nat \<Rightarrow> char" where
  "digit n = char_of (48 + n mod 10)"

fun decimal :: "nat \<Rightarrow> string" where
  "decimal n = (if n < 10 then [digit n] else decimal (n div 10) @ [digit n])"

declare decimal.simps [simp del]

definition zfill :: "nat \<Rightarrow> string \<Rightarrow> string" where
  "zfill w s = replicate (w - length s) (CHR ''0'') @ s"

fun period_str :: "period \<Rightarrow> string" where
  \<comment> \<open>\<open>astype(str)\<close> of a monthly period: \<open>YYYY-MM\<close>\<close>
  "period_str (y, m) = zfill 4 (decimal y) @ ''-'' @ zfill 2 (decimal m)"

record scatter =
  name :: string
  x :: "string list"
  y :: "rat list"
  stackgroup :: "string option"

record trend_fig =
  traces :: "scatter list"
  trend_title :: string
  xaxis_title :: string
  yaxis_title :: string

definition month_category :: "txn \<Rightarrow> (period \<times> string) option" where
  \<comment> \<open>the key of a row under \<open>groupby(['month', 'category'])\<close>\<close>
  "month_category t = map_option (\<lambda>p. (p, category t)) (month t)"

definition expense_trace :: "((period \<times> string) \<times> rat) list \<Rightarrow> string \<Rightarrow> scatter" where
  \<comment> \<open>the body of the loop of lines 85 to 95\<close>
  "expense_trace monthly_expenses c =
     (let category_data = filter (\<lambda>r. snd (fst r) = c) monthly_expenses
      in \<lparr>name = c,
          x = map (\<lambda>r. period_str (fst (fst r))) category_data,
          y = map snd category_data,
          stackgroup = Some ''expenses''\<rparr>)"

text \<open>
  The function assigns columns \<open>date\<close> and \<open>month\<close> of the frame it was given, so the model
  returns that frame as the call leaves it, beside the figure. The row type has a
  \<open>date\<close> column, so the test of line 52 is true.
\<close>

definition create_spending_trend_chart :: "txn list \<Rightarrow> txn list \<times> trend_fig" where
  "create_spending_trend_chart transactions_df =
     (let transactions_df = map (\<lambda>t. t\<lparr>date := to_datetime (date t)\<rparr>) transactions_df;
          transactions_df =
            map (\<lambda>t. t\<lparr>month := Some (to_period_M (date t))\<rparr>) transactions_df;
          income_df = filter (\<lambda>t. amount t > 0) transactions_df;
          expenses_df = filter (\<lambda>t. amount t < 0) transactions_df;
          expenses_df = map abs_amount expenses_df;
          monthly_expenses =
            groupby_sum (dropna (map (\<lambda>t. (month_category t, amount t)) expenses_df));
          monthly_income = groupby_sum (dropna (map (\<lambda>t. (month t, amount t)) income_df));
          income = \<lparr>name = ''Income'',
                    x = map (\<lambda>r. period_str (fst r)) monthly_income,
                    y = map snd monthly_income,
                    stackgroup = None\<rparr>
      in (transactions_df,
          \<lparr>traces = income #
             map (expense_trace monthly_expenses) (unique (map (\<lambda>r. snd (fst r)) monthly_expenses)),
           trend_title = ''Monthly Income and Expenses Over Time'',
           xaxis_title = ''Month'',
           yaxis_title = ''Amount ($)''\<rparr>))"

section \<open>create\_budget\_comparison\_chart\<close>

definition merge_key ::
  "(string \<times> rat) list \<Rightarrow> (string \<times> rat) list \<Rightarrow> string \<Rightarrow>
   (string \<times> rat option \<times> rat option) list" where
  \<comment> \<open>the rows of the outer join with key \<open>k\<close>: each left row with each right row, or
      the rows of one side beside missing cells when the other side has none\<close>
  "merge_key left right k =
     (let ls = group_rows k left; rs = group_rows k right
      in if ls = [] then map (\<lambda>b. (k, None, Some b)) rs
         else if rs = [] then map (\<lambda>a. (k, Some a, None)) ls
         else concat (map (\<lambda>a. map (\<lambda>b. (k, Some a, Some b)) rs) ls))"

definition merge_outer ::
  "(string \<times> rat) list \<Rightarrow> (string \<times> rat) list \<Rightarrow>
   (string \<times> rat option \<times> rat option) list" where
  \<comment> \<open>\<open>pd.merge(left, right, on='category', how='outer')\<close>: the union of the keys,
      sorted\<close>
  "merge_outer left right =
     concat (map (merge_key left right) (sort (remdups (map fst left @ map fst right))))"

definition fillna :: "rat \<Rightarrow> rat option \<Rightarrow> rat" where
  "fillna v c = (case c of None \<Rightarrow> v | Some a \<Rightarrow> a)"

record cmp_row =
  Category :: string
  Actual :: rat
  Budgeted :: rat
  Difference :: rat
  Status :: string

definition status_of :: "rat \<Rightarrow> string" where
  \<comment> \<open>the lambda of line 142\<close>
  "status_of d = (if d \<ge> 0 then ''Under Budget'' else ''Over Budget'')"

definition comparison_row :: "string \<times> rat option \<times> rat option \<Rightarrow> cmp_row" where
  \<comment> \<open>lines 135 to 142 on one row of the join\<close>
  "comparison_row r =
     (let actual = fillna 0 (fst (snd r));
          budgeted = fillna 0 (snd (snd r));
          difference = budgeted - actual
      in \<lparr>Category = fst r, Actual = actual, Budgeted = budgeted,
          Difference = difference, Status = status_of difference\<rparr>)"

record bar_fig =
  bar_x :: "string list"
  bar_actual :: "rat list"
  bar_budgeted :: "rat list"
  bar_title :: string

text \<open>
  The figure plots columns \<open>Actual\<close> and \<open>Budgeted\<close> only; the model returns the local
  table \<open>comparison_df\<close> beside it.
\<close>

definition create_budget_comparison_chart ::
  "txn list \<Rightarrow> budget list \<Rightarrow> cmp_row list \<times> bar_fig" where
  "create_budget_comparison_chart transactions_df budget_df =
     (let expenses_df = filter (\<lambda>t. amount t < 0) transactions_df;
          expenses_df = map abs_amount expenses_df;
          actual_spending = groupby_sum (map (\<lambda>t. (category t, amount t)) expenses_df);
          comparison_df = map comparison_row (merge_outer actual_spending budget_df)
      in (comparison_df,
          \<lparr>bar_x = map Category comparison_df,
           bar_actual = map Actual comparison_df,
           bar_budgeted = map Budgeted comparison_df,
           bar_title = ''Budget vs. Actual Spending''\<rparr>))"

section \<open>Auxiliary definitions\<close>

definition expense_rows :: "txn list \<Rightarrow> (string \<times> rat) list" where
  \<comment> \<open>the (category, amount) rows that lines 23 and 128 group: the rows with a negative
      amount, the amount replaced by its absolute value\<close>
  "expense_rows txns =
     map (\<lambda>t. (category t, amount t)) (map abs_amount (filter (\<lambda>t. amount t < 0) txns))"

definition income_rows :: "txn list \<Rightarrow> (period \<times> rat) list" where
  \<comment> \<open>the (month, amount) rows that line 67 groups\<close>
  "income_rows txns =
     map (\<lambda>t. (to_period_M (date t), amount t)) (filter (\<lambda>t. 0 < amount t) txns)"

definition monthly_expense_rows ::
  "txn list \<Rightarrow> ((period \<times> string) \<times> rat) list" where
  \<comment> \<open>the ((month, category), amount) rows that line 65 groups\<close>
  "monthly_expense_rows txns =
     map (\<lambda>t. ((to_period_M (date t), category t), \<bar>amount t\<bar>))
       (filter (\<lambda>t. amount t < 0) txns)"

definition numeral_value :: "string \<Rightarrow> nat" where
  \<comment> \<open>the number that a string of decimal digits denotes\<close>
  "numeral_value s = foldl (\<lambda>a c. 10 * a + (of_char c - 48)) 0 s"

definition before :: "period \<Rightarrow> period \<Rightarrow> bool" where
  \<comment> \<open>month \<open>p\<close> is chronologically earlier than month \<open>q\<close>\<close>
  "before p q = (fst p < fst q \<or> (fst p = fst q \<and> snd p < snd q))"

definition scenario_txns :: "txn list" where
  \<comment> \<open>two Food expenses in January 2024 and a salary in February 2024\<close>
  "scenario_txns =
     [\<lparr>date = Timestamp 2024 1 5, amount = -50, category = ''Food'', month = None\<rparr>,
      \<lparr>date = Timestamp 2024 1 10, amount = -30, category = ''Food'', month = None\<rparr>,
      \<lparr>date = Timestamp 2024 2 1, amount = 2000, category = ''Salary'', month = None\<rparr>]"

section \<open>Properties of the gauge\<close>






section \<open>Grouping and sums\<close>

lemmas frame_defs = groupby_sum_def group_rows_def abs_amount_def Let_def
  merge_outer_def merge_key_def comparison_row_def fillna_def status_of_def

lemma sum_list_filter_disjoint:
  fixes f :: "'a \<Rightarrow> rat"
  assumes "\<And>x. x \<in> set xs \<Longrightarrow> \<not> (P x \<and> Q x)"
  shows "sum_list (map f (filter P xs)) + sum_list (map f (filter Q xs)) =
         sum_list (map f (filter (\<lambda>x. P x \<or> Q x) xs))"
  using assms by (induction xs) auto

lemma sum_groups_distinct:
  fixes kvs :: "('k \<times> rat) list"
  assumes "distinct ks"
  shows "sum_list (map (\<lambda>k. sum_list (group_rows k kvs)) ks) =
         sum_list (map snd (filter (\<lambda>kv. fst kv \<in> set ks) kvs))"
  using assms
proof (induction ks)
  case Nil
  then show ?case by simp
next
  case (Cons k ks)
  have disj: "\<And>kv. kv \<in> set kvs \<Longrightarrow> \<not> (fst kv = k \<and> fst kv \<in> set ks)"
    using Cons.prems by auto
  have "sum_list (map (\<lambda>k. sum_list (group_rows k kvs)) (k # ks)) =
        sum_list (map snd (filter (\<lambda>kv. fst kv = k) kvs)) +
        sum_list (map snd (filter (\<lambda>kv. fst kv \<in> set ks) kvs))"
    using Cons by (simp add: group_rows_def)
  also have "\<dots> = sum_list (map snd (filter (\<lambda>kv. fst kv = k \<or> fst kv \<in> set ks) kvs))"
    using sum_list_filter_disjoint
      [where xs = kvs and P = "\<lambda>kv. fst kv = k" and Q = "\<lambda>kv. fst kv \<in> set ks" and f = snd]
      disj
    by blast
  finally show ?case by simp
qed

lemma groupby_sum_keys: "map fst (groupby_sum kvs) = sort (remdups (map fst kvs))"
  by (simp add: groupby_sum_def o_def)

lemma groupby_sum_total: "sum_list (map snd (groupby_sum kvs)) = sum_list (map snd kvs)"
proof -
  let ?ks = "sort (remdups (map fst kvs))"
  have d: "distinct ?ks" by simp
  have "sum_list (map snd (groupby_sum kvs)) =
        sum_list (map (\<lambda>k. sum_list (group_rows k kvs)) ?ks)"
    by (simp add: groupby_sum_def o_def)
  also have "\<dots> = sum_list (map snd (filter (\<lambda>kv. fst kv \<in> set ?ks) kvs))"
    by (rule sum_groups_distinct [OF d])
  also have "\<dots> = sum_list (map snd kvs)"
    by (simp cong: filter_cong)
  finally show ?thesis .
qed

lemma amount_abs_amount: "amount (abs_amount t) = \<bar>amount t\<bar>"
  and category_abs_amount: "category (abs_amount t) = category t"
  and month_abs_amount: "month (abs_amount t) = month t"
  and date_abs_amount: "date (abs_amount t) = date t"
  by (simp_all add: abs_amount_def)

section \<open>Properties of the pie chart\<close>



lemma sum_list_pos_rat:
  fixes xs :: "rat list"
  assumes "xs \<noteq> []" and "\<And>x. x \<in> set xs \<Longrightarrow> 0 < x"
  shows "0 < sum_list xs"
  using assms
proof (induction xs)
  case Nil
  then show ?case by simp
next
  case (Cons a xs)
  have "0 < a" using Cons.prems(2) by simp
  moreover have "0 \<le> sum_list xs"
    using Cons.prems(2) by (intro sum_list_nonneg) (simp add: less_imp_le)
  ultimately show ?case by simp
qed

lemma set_group_rows: "set (group_rows k kvs) = {v. (k, v) \<in> set kvs}"
  by (auto simp: group_rows_def image_iff)

lemma group_rows_empty_iff: "group_rows k kvs = [] \<longleftrightarrow> k \<notin> fst ` set kvs"
  by (auto simp: group_rows_def filter_empty_conv image_iff)

lemma groupby_sum_row:
  assumes "(k, v) \<in> set (groupby_sum kvs)"
  shows "k \<in> fst ` set kvs" and "v = sum_list (group_rows k kvs)"
  using assms by (auto simp: groupby_sum_def)

lemma expense_rows_keys: "fst ` set (expense_rows txns) = category ` {t \<in> set txns. amount t < 0}"
  by (auto simp: expense_rows_def category_abs_amount image_iff)

lemma expense_rows_pos: "(c, v) \<in> set (expense_rows txns) \<Longrightarrow> 0 < v"
  by (auto simp: expense_rows_def amount_abs_amount)

lemma actual_total_pos:
  assumes "(c, v) \<in> set (groupby_sum (expense_rows txns))"
  shows "0 < v"
proof -
  have "c \<in> fst ` set (expense_rows txns)" and v: "v = sum_list (group_rows c (expense_rows txns))"
    using groupby_sum_row [OF assms] by simp_all
  then have "group_rows c (expense_rows txns) \<noteq> []"
    by (simp add: group_rows_empty_iff)
  moreover have "\<And>a. a \<in> set (group_rows c (expense_rows txns)) \<Longrightarrow> 0 < a"
    by (simp add: set_group_rows expense_rows_pos)
  ultimately show ?thesis unfolding v by (rule sum_list_pos_rat)
qed

lemma pie_chart_eq: "create_spending_pie_chart txns =
   \<lparr>labels = map fst (groupby_sum (expense_rows txns)),
    slices = map snd (groupby_sum (expense_rows txns)),
    pie_title = ''Expenses by Category'', hole = 4 / 10, textinfo = ''percent+label''\<rparr>"
  by (simp add: create_spending_pie_chart_def Let_def expense_rows_def)



section \<open>Properties of the budget comparison\<close>

lemma merge_outer_cells:
  assumes "(k, a, b) \<in> set (merge_outer left right)"
  shows "a = None \<or> (\<exists>v. a = Some v \<and> (k, v) \<in> set left)"
    and "b = None \<or> (\<exists>v. b = Some v \<and> (k, v) \<in> set right)"
  using assms
  by (auto simp: merge_outer_def merge_key_def Let_def set_group_rows split: if_splits)

lemma budget_chart_eq: "fst (create_budget_comparison_chart txns budget_df) =
   map comparison_row (merge_outer (groupby_sum (expense_rows txns)) budget_df)"
  by (simp add: create_budget_comparison_chart_def Let_def expense_rows_def)





lemma group_rows_map_of:
  assumes "distinct (map fst xs)"
  shows "group_rows k xs = (case map_of xs k of None \<Rightarrow> [] | Some v \<Rightarrow> [v])"
  using assms
proof (induction xs)
  case Nil
  then show ?case by (simp add: group_rows_def)
next
  case (Cons p xs)
  obtain c a where p: "p = (c, a)" by (cases p)
  have ih: "group_rows k xs = (case map_of xs k of None \<Rightarrow> [] | Some v \<Rightarrow> [v])"
    using Cons by simp
  show ?case
  proof (cases "c = k")
    case True
    then have "k \<notin> fst ` set xs" using Cons.prems p by auto
    then have "group_rows k xs = []" by (simp add: group_rows_empty_iff)
    then show ?thesis using True p by (simp add: group_rows_def)
  next
    case False
    then show ?thesis using ih p by (simp add: group_rows_def)
  qed
qed

lemma merge_key_single:
  assumes "distinct (map fst left)" and "distinct (map fst right)"
    and "k \<in> fst ` set left \<union> fst ` set right"
  shows "merge_key left right k = [(k, map_of left k, map_of right k)]"
proof -
  have "map_of left k \<noteq> None \<or> map_of right k \<noteq> None"
    using assms(3) by (auto simp: map_of_eq_None_iff)
  then show ?thesis
    by (auto simp: merge_key_def Let_def group_rows_map_of [OF assms(1)]
        group_rows_map_of [OF assms(2)] split: option.splits)
qed

lemma concat_map_single:
  assumes "\<And>k. k \<in> set ks \<Longrightarrow> f k = [g k]"
  shows "concat (map f ks) = map g ks"
  using assms by (induction ks) simp_all

lemma merge_outer_distinct:
  assumes "distinct (map fst left)" and "distinct (map fst right)"
  shows "merge_outer left right =
         map (\<lambda>k. (k, map_of left k, map_of right k))
           (sort (remdups (map fst left @ map fst right)))"
  unfolding merge_outer_def
  by (rule concat_map_single) (simp add: merge_key_single [OF assms])

lemma Category_comparison_row: "Category (comparison_row r) = fst r"
  and Actual_comparison_row: "Actual (comparison_row r) = fillna 0 (fst (snd r))"
  and Budgeted_comparison_row: "Budgeted (comparison_row r) = fillna 0 (snd (snd r))"
  by (simp_all add: comparison_row_def Let_def)

lemma groupby_sum_distinct: "distinct (map fst (groupby_sum kvs))"
  by (simp add: groupby_sum_keys)

lemma groupby_sum_key_set: "fst ` set (groupby_sum kvs) = fst ` set kvs"
proof -
  have "fst ` set (groupby_sum kvs) = set (map fst (groupby_sum kvs))" by simp
  also have "\<dots> = fst ` set kvs" by (simp only: groupby_sum_keys) simp
  finally show ?thesis .
qed

lemma comparison_table_distinct:
  assumes "distinct (map fst budget_df)"
  shows "fst (create_budget_comparison_chart txns budget_df) =
         map (\<lambda>k. comparison_row
                (k, map_of (groupby_sum (expense_rows txns)) k, map_of budget_df k))
           (sort (remdups (map fst (groupby_sum (expense_rows txns)) @ map fst budget_df)))"
  by (simp add: budget_chart_eq merge_outer_distinct [OF groupby_sum_distinct assms] o_def)

text \<open>
  C2. When the categories of the budget frame are pairwise different, the comparison
  table has exactly one row per category of the union of the categories with an expense
  and the budget categories, so no category of either side is missing. A row whose
  category is not budgeted has \<open>Budgeted\<close> 0 and a row whose category has no expense has
  \<open>Actual\<close> 0; a row of a budgeted category carries the budgeted amount.
\<close>

theorem outer_join_one_row_per_category:
  assumes "distinct (map fst budget_df)"
  shows
   "distinct (map Category (fst (create_budget_comparison_chart txns budget_df))) \<and>
    set (map Category (fst (create_budget_comparison_chart txns budget_df))) =
      category ` {t \<in> set txns. amount t < 0} \<union> fst ` set budget_df \<and>
    length (fst (create_budget_comparison_chart txns budget_df)) =
      card (category ` {t \<in> set txns. amount t < 0} \<union> fst ` set budget_df) \<and>
    (\<forall>r \<in> set (fst (create_budget_comparison_chart txns budget_df)).
       (Category r \<notin> fst ` set budget_df \<longrightarrow> Budgeted r = 0) \<and>
       (Category r \<in> fst ` set budget_df \<longrightarrow> (Category r, Budgeted r) \<in> set budget_df) \<and>
       (Category r \<notin> category ` {t \<in> set txns. amount t < 0} \<longrightarrow> Actual r = 0))"
proof -
  let ?L = "groupby_sum (expense_rows txns)"
  let ?ks = "sort (remdups (map fst ?L @ map fst budget_df))"
  let ?T = "fst (create_budget_comparison_chart txns budget_df)"
  let ?A = "category ` {t \<in> set txns. amount t < 0}"
  let ?B = "fst ` set budget_df"
  have T: "?T = map (\<lambda>k. comparison_row (k, map_of ?L k, map_of budget_df k)) ?ks"
    by (rule comparison_table_distinct [OF assms])
  have cats: "map Category ?T = ?ks"
    by (simp add: T o_def Category_comparison_row)
  have LA: "fst ` set ?L = ?A"
    by (simp only: groupby_sum_key_set expense_rows_keys)
  have ks: "set ?ks = ?A \<union> ?B"
    using LA by simp
  have d: "distinct (map Category ?T)"
    by (simp only: cats) simp
  have s: "set (map Category ?T) = ?A \<union> ?B"
    by (simp only: cats ks)
  have "length ?T = length (map Category ?T)" by simp
  also have "\<dots> = card (set (map Category ?T))"
    using d by (simp only: distinct_card)
  finally have l: "length ?T = card (?A \<union> ?B)"
    by (simp only: s)
  have rows: "\<forall>r \<in> set ?T.
       (Category r \<notin> ?B \<longrightarrow> Budgeted r = 0) \<and>
       (Category r \<in> ?B \<longrightarrow> (Category r, Budgeted r) \<in> set budget_df) \<and>
       (Category r \<notin> ?A \<longrightarrow> Actual r = 0)"
  proof
    fix r assume "r \<in> set ?T"
    then obtain k where r: "r = comparison_row (k, map_of ?L k, map_of budget_df k)"
      unfolding T by auto
    have c: "Category r = k" by (simp add: r Category_comparison_row)
    have bud: "Budgeted r = fillna 0 (map_of budget_df k)"
      by (simp add: r Budgeted_comparison_row)
    have act: "Actual r = fillna 0 (map_of ?L k)"
      by (simp add: r Actual_comparison_row)
    have "k \<notin> ?B \<Longrightarrow> map_of budget_df k = None"
      by (simp add: map_of_eq_None_iff)
    then have 1: "Category r \<notin> ?B \<longrightarrow> Budgeted r = 0"
      unfolding c bud by (simp add: fillna_def)
    have 2: "Category r \<in> ?B \<longrightarrow> (Category r, Budgeted r) \<in> set budget_df"
    proof
      assume "Category r \<in> ?B"
      then obtain v where v: "map_of budget_df k = Some v"
        unfolding c by (cases "map_of budget_df k") (simp_all add: map_of_eq_None_iff)
      then have "(k, v) \<in> set budget_df" by (rule map_of_SomeD)
      then show "(Category r, Budgeted r) \<in> set budget_df"
        unfolding c bud by (simp add: v fillna_def)
    qed
    have "k \<notin> ?A \<Longrightarrow> map_of ?L k = None"
      using LA by (simp add: map_of_eq_None_iff)
    then have 3: "Category r \<notin> ?A \<longrightarrow> Actual r = 0"
      unfolding c act by (simp add: fillna_def)
    show "(Category r \<notin> ?B \<longrightarrow> Budgeted r = 0) \<and>
       (Category r \<in> ?B \<longrightarrow> (Category r, Budgeted r) \<in> set budget_df) \<and>
       (Category r \<notin> ?A \<longrightarrow> Actual r = 0)"
      using 1 2 3 by blast
  qed
  show ?thesis using d s l rows by blast
qed

theorem outer_join_one_row_per_category_witness:
  "distinct (map fst [(''Rent'', 900 :: rat), (''Travel'', 40)]) \<and>
   fst (create_budget_comparison_chart scenario_txns [(''Rent'', 900), (''Travel'', 40)]) =
     [\<lparr>Category = ''Food'', Actual = 80, Budgeted = 0, Difference = - 80,
        Status = ''Over Budget''\<rparr>,
      \<lparr>Category = ''Rent'', Actual = 0, Budgeted = 900, Difference = 900,
        Status = ''Under Budget''\<rparr>,
      \<lparr>Category = ''Travel'', Actual = 0, Budgeted = 40, Difference = 40,
        Status = ''Under Budget''\<rparr>] \<and>
   card (category ` {t \<in> set scenario_txns. amount t < 0} \<union>
         fst ` set [(''Rent'', 900 :: rat), (''Travel'', 40)]) = 3"
proof -
  have d: "distinct (map fst [(''Rent'', 900 :: rat), (''Travel'', 40)])" by simp
  have t: "fst (create_budget_comparison_chart scenario_txns [(''Rent'', 900), (''Travel'', 40)]) =
     [\<lparr>Category = ''Food'', Actual = 80, Budgeted = 0, Difference = - 80,
        Status = ''Over Budget''\<rparr>,
      \<lparr>Category = ''Rent'', Actual = 0, Budgeted = 900, Difference = 900,
        Status = ''Under Budget''\<rparr>,
      \<lparr>Category = ''Travel'', Actual = 0, Budgeted = 40, Difference = 40,
        Status = ''Under Budget''\<rparr>]"
    by (simp add: scenario_txns_def create_budget_comparison_chart_def frame_defs)
  show ?thesis
    using outer_join_one_row_per_category [OF d, of scenario_txns] d t by simp
qed

section \<open>Properties of the trend chart\<close>

lemma dropna_map_Some: "dropna (map (\<lambda>t. (Some (f t), g t)) xs) = map (\<lambda>t. (f t, g t)) xs"
  by (induction xs) simp_all

lemma trend_income_rows:
  "dropna (map (\<lambda>t. (month t, amount t))
     (filter (\<lambda>t. 0 < amount t)
        (map (\<lambda>t. t\<lparr>month := Some (to_period_M (date t))\<rparr>)
           (map (\<lambda>t. t\<lparr>date := to_datetime (date t)\<rparr>) txns)))) = income_rows txns"
proof -
  have "filter (\<lambda>t. 0 < amount t)
        (map (\<lambda>t. t\<lparr>month := Some (to_period_M (date t))\<rparr>)
           (map (\<lambda>t. t\<lparr>date := to_datetime (date t)\<rparr>) txns)) =
        map (\<lambda>t. t\<lparr>month := Some (to_period_M (date t))\<rparr>) (filter (\<lambda>t. 0 < amount t) txns)"
    by (simp add: filter_map o_def to_datetime_def)
  then show ?thesis
    by (simp add: o_def income_rows_def dropna_map_Some)
qed

lemma trend_expense_rows:
  "dropna (map (\<lambda>t. (month_category t, amount t))
     (map abs_amount (filter (\<lambda>t. amount t < 0)
        (map (\<lambda>t. t\<lparr>month := Some (to_period_M (date t))\<rparr>)
           (map (\<lambda>t. t\<lparr>date := to_datetime (date t)\<rparr>) txns))))) = monthly_expense_rows txns"
proof -
  have "filter (\<lambda>t. amount t < 0)
        (map (\<lambda>t. t\<lparr>month := Some (to_period_M (date t))\<rparr>)
           (map (\<lambda>t. t\<lparr>date := to_datetime (date t)\<rparr>) txns)) =
        map (\<lambda>t. t\<lparr>month := Some (to_period_M (date t))\<rparr>) (filter (\<lambda>t. amount t < 0) txns)"
    by (simp add: filter_map o_def to_datetime_def)
  then show ?thesis
    by (simp add: o_def monthly_expense_rows_def dropna_map_Some month_category_def
        abs_amount_def)
qed

lemma trend_chart_eq:
  "snd (create_spending_trend_chart txns) =
     \<lparr>traces =
        \<lparr>name = ''Income'',
         x = map (\<lambda>r. period_str (fst r)) (groupby_sum (income_rows txns)),
         y = map snd (groupby_sum (income_rows txns)),
         stackgroup = None\<rparr> #
        map (expense_trace (groupby_sum (monthly_expense_rows txns)))
          (unique (map (\<lambda>r. snd (fst r)) (groupby_sum (monthly_expense_rows txns)))),
      trend_title = ''Monthly Income and Expenses Over Time'',
      xaxis_title = ''Month'',
      yaxis_title = ''Amount ($)''\<rparr>"
  unfolding create_spending_trend_chart_def Let_def snd_conv
  by (simp only: trend_income_rows trend_expense_rows)

section \<open>Rows with amount zero\<close>

lemma filter_nonzero_pos:
  "filter (\<lambda>t. 0 < amount t) (filter (\<lambda>t. amount t \<noteq> 0) txns) = filter (\<lambda>t. 0 < amount t) txns"
  by (induction txns) auto

lemma filter_nonzero_neg:
  "filter (\<lambda>t. amount t < 0) (filter (\<lambda>t. amount t \<noteq> 0) txns) = filter (\<lambda>t. amount t < 0) txns"
  by (induction txns) auto

lemma income_rows_nonzero: "income_rows (filter (\<lambda>t. amount t \<noteq> 0) txns) = income_rows txns"
  by (simp only: income_rows_def filter_nonzero_pos)

lemma monthly_expense_rows_nonzero:
  "monthly_expense_rows (filter (\<lambda>t. amount t \<noteq> 0) txns) = monthly_expense_rows txns"
  by (simp only: monthly_expense_rows_def filter_nonzero_neg)

text \<open>
  C8. A transaction whose amount is exactly 0 contributes to no output: the pie chart, the
  trend figure (the income series and every expense series) and the comparison table
  with its bar chart are the same as for the frame without the rows of amount 0.
\<close>

theorem zero_amount_rows_ignored:
  "create_spending_pie_chart (filter (\<lambda>t. amount t \<noteq> 0) txns) = create_spending_pie_chart txns \<and>
   snd (create_spending_trend_chart (filter (\<lambda>t. amount t \<noteq> 0) txns)) =
     snd (create_spending_trend_chart txns) \<and>
   create_budget_comparison_chart (filter (\<lambda>t. amount t \<noteq> 0) txns) budget_df =
     create_budget_comparison_chart txns budget_df"
proof (intro conjI)
  show "create_spending_pie_chart (filter (\<lambda>t. amount t \<noteq> 0) txns) = create_spending_pie_chart txns"
    by (simp only: create_spending_pie_chart_def filter_nonzero_neg)
  show "snd (create_spending_trend_chart (filter (\<lambda>t. amount t \<noteq> 0) txns)) =
     snd (create_spending_trend_chart txns)"
    by (simp only: trend_chart_eq income_rows_nonzero monthly_expense_rows_nonzero)
  show "create_budget_comparison_chart (filter (\<lambda>t. amount t \<noteq> 0) txns) budget_df =
     create_budget_comparison_chart txns budget_df"
    by (simp only: create_budget_comparison_chart_def filter_nonzero_neg)
qed

theorem zero_amount_rows_ignored_witness:
  "create_spending_pie_chart
     (\<lparr>date = Timestamp 2024 3 9, amount = 0, category = ''Food'', month = None\<rparr> # scenario_txns) =
   create_spending_pie_chart scenario_txns"
  using zero_amount_rows_ignored
    [of "\<lparr>date = Timestamp 2024 3 9, amount = 0, category = ''Food'', month = None\<rparr> # scenario_txns"]
  by (simp add: scenario_txns_def)

section \<open>The income series\<close>

lemma group_rows_income:
  "group_rows m (income_rows txns) =
     map amount (filter (\<lambda>t. 0 < amount t \<and> to_period_M (date t) = m) txns)"
  by (induction txns) (simp_all add: group_rows_def income_rows_def)

subsection \<open>Month labels\<close>

lemma of_char_digit: "of_char (digit n) = (48 + n mod 10 :: nat)"
proof -
  have "n mod 10 < 10" by simp
  then have "48 + n mod 10 < 256" by linarith
  then show ?thesis by (simp add: digit_def)
qed

lemma digit_not_dash: "digit n \<noteq> CHR ''-''"
proof
  assume "digit n = CHR ''-''"
  then have "(of_char (digit n) :: nat) = of_char (CHR ''-'')" by simp
  then show False by (simp add: of_char_digit)
qed

lemma numeral_value_snoc:
  "numeral_value (s @ [c]) = 10 * numeral_value s + (of_char c - 48)"
  by (simp add: numeral_value_def)

lemma numeral_value_decimal: "numeral_value (decimal n) = n"
proof (induction n rule: decimal.induct)
  case (1 n)
  show ?case
  proof (cases "n < 10")
    case True
    then have "decimal n = [digit n]" by (subst decimal.simps) simp
    then show ?thesis using True
      by (simp add: numeral_value_def of_char_digit)
  next
    case False
    then have "numeral_value (decimal (n div 10)) = n div 10" using "1" by simp
    moreover have "decimal n = decimal (n div 10) @ [digit n]"
      using False by (subst decimal.simps) simp
    ultimately show ?thesis
      by (simp add: numeral_value_snoc of_char_digit)
  qed
qed

lemma numeral_value_zeros:
  "numeral_value (replicate k (CHR ''0'') @ s) = numeral_value s"
proof -
  have "foldl (\<lambda>a c. 10 * a + (of_char c - 48)) (0 :: nat) (replicate k (CHR ''0'')) = 0"
    by (induction k) simp_all
  then show ?thesis by (simp add: numeral_value_def)
qed

lemma zfill_decimal_inj:
  assumes "zfill w (decimal a) = zfill w (decimal b)"
  shows "a = b"
proof -
  have "numeral_value (zfill w (decimal a)) = numeral_value (zfill w (decimal b))"
    using assms by simp
  then show ?thesis
    by (simp add: zfill_def numeral_value_zeros numeral_value_decimal)
qed

lemma decimal_no_dash: "CHR ''-'' \<notin> set (decimal n)"
proof (induction n rule: decimal.induct)
  case (1 n)
  show ?case
  proof (cases "n < 10")
    case True
    then have "decimal n = [digit n]" by (subst decimal.simps) simp
    then show ?thesis using digit_not_dash [of n] by auto
  next
    case False
    then have "CHR ''-'' \<notin> set (decimal (n div 10))" using "1" by simp
    moreover have "decimal n = decimal (n div 10) @ [digit n]"
      using False by (subst decimal.simps) simp
    ultimately show ?thesis using digit_not_dash [of n] by auto
  qed
qed

lemma zfill_no_dash: "CHR ''-'' \<notin> set (zfill w (decimal n))"
  using decimal_no_dash [of n] by (auto simp: zfill_def)

lemma takeWhile_until:
  "c \<notin> set a \<Longrightarrow> takeWhile (\<lambda>x. x \<noteq> c) (a @ c # b) = a"
  by (induction a) auto

lemma split_at_dash:
  assumes "CHR ''-'' \<notin> set a" and "CHR ''-'' \<notin> set a'"
    and "a @ CHR ''-'' # b = a' @ CHR ''-'' # b'"
  shows "a = a' \<and> b = b'"
proof -
  have "takeWhile (\<lambda>x. x \<noteq> CHR ''-'') (a @ CHR ''-'' # b) =
        takeWhile (\<lambda>x. x \<noteq> CHR ''-'') (a' @ CHR ''-'' # b')"
    by (simp only: assms(3))
  then have "a = a'"
    by (simp only: takeWhile_until [OF assms(1)] takeWhile_until [OF assms(2)])
  then show ?thesis using assms(3) by simp
qed

lemma period_str_inj:
  assumes "period_str p = period_str q"
  shows "p = q"
proof -
  obtain y m where p: "p = (y, m)" by (cases p)
  obtain y' m' where q: "q = (y', m')" by (cases q)
  have "zfill 4 (decimal y) @ CHR ''-'' # zfill 2 (decimal m) =
        zfill 4 (decimal y') @ CHR ''-'' # zfill 2 (decimal m')"
    using assms by (simp add: p q)
  then have "zfill 4 (decimal y) = zfill 4 (decimal y') \<and>
             zfill 2 (decimal m) = zfill 2 (decimal m')"
    by (rule split_at_dash [OF zfill_no_dash zfill_no_dash])
  then show ?thesis
    by (simp add: p q zfill_decimal_inj [of 4 y y'] zfill_decimal_inj [of 2 m m'])
qed

lemma sorted_wrt_before: "sorted_wrt before ms \<longleftrightarrow> sorted_wrt (<) ms"
proof -
  have "before = (<)"
    by (auto simp: before_def less_prod_def fun_eq_iff)
  then show ?thesis by simp
qed

text \<open>
  C7. The income series of the trend chart has exactly one point per month that holds a
  transaction with a positive amount: its months \<open>ms\<close> are those months, each once, in
  strictly ascending chronological order; the label of a point is the month as text, the
  labels are pairwise different, and the value of a point is the sum of the positive
  amounts of that month.
\<close>

theorem income_series_by_month:
  "\<exists>ms rest.
     sorted_wrt before ms \<and>
     set ms = (\<lambda>t. to_period_M (date t)) ` {t \<in> set txns. 0 < amount t} \<and>
     distinct (map period_str ms) \<and>
     traces (snd (create_spending_trend_chart txns)) =
       \<lparr>name = ''Income'',
        x = map period_str ms,
        y = map (\<lambda>m. sum_list (map amount
                  (filter (\<lambda>t. 0 < amount t \<and> to_period_M (date t) = m) txns))) ms,
        stackgroup = None\<rparr> # rest"
proof -
  let ?ms = "sort (remdups (map fst (income_rows txns)))"
  have 1: "sorted_wrt before ?ms"
    by (simp add: sorted_wrt_before strict_sorted_iff)
  have 2: "set ?ms = (\<lambda>t. to_period_M (date t)) ` {t \<in> set txns. 0 < amount t}"
    by (auto simp: income_rows_def image_iff)
  have "inj_on period_str (set ?ms)"
    by (rule inj_onI) (rule period_str_inj)
  then have 3: "distinct (map period_str ?ms)"
    by (simp add: distinct_map)
  have x: "map (\<lambda>r. period_str (fst r)) (groupby_sum (income_rows txns)) = map period_str ?ms"
    by (simp add: groupby_sum_def o_def)
  have y: "map snd (groupby_sum (income_rows txns)) =
      map (\<lambda>m. sum_list (map amount
                  (filter (\<lambda>t. 0 < amount t \<and> to_period_M (date t) = m) txns))) ?ms"
    by (simp add: groupby_sum_def o_def group_rows_income)
  show ?thesis
    unfolding trend_chart_eq x y using 1 2 3
    by (intro exI conjI) (assumption, assumption, assumption, simp)
qed

theorem income_series_by_month_witness:
  "\<exists>ms rest.
     sorted_wrt before ms \<and>
     traces (snd (create_spending_trend_chart scenario_txns)) =
       \<lparr>name = ''Income'', x = map period_str ms,
        y = map (\<lambda>m. sum_list (map amount
                  (filter (\<lambda>t. 0 < amount t \<and> to_period_M (date t) = m) scenario_txns))) ms,
        stackgroup = None\<rparr> # rest \<and>
     traces (snd (create_spending_trend_chart scenario_txns)) =
       [\<lparr>name = ''Income'', x = [''2024-02''], y = [2000], stackgroup = None\<rparr>,
        \<lparr>name = ''Food'', x = [''2024-01''], y = [80], stackgroup = Some ''expenses''\<rparr>]"
proof -
  have e: "traces (snd (create_spending_trend_chart scenario_txns)) =
       [\<lparr>name = ''Income'', x = [''2024-02''], y = [2000], stackgroup = None\<rparr>,
        \<lparr>name = ''Food'', x = [''2024-01''], y = [80], stackgroup = Some ''expenses''\<rparr>]"
    by code_simp
  show ?thesis
    using income_series_by_month [of scenario_txns] e by blast
qed

section \<open>The frame after a call\<close>

text \<open>
  C4 says that every function leaves the frames it was given as they were. The trend
  chart assigns two columns of its argument before it copies anything: called on a frame
  of one transaction without a \<open>month\<close> column, it leaves that frame with the column
  filled in, so the frame after the call differs from the frame before it.
\<close>

theorem trend_chart_assigns_month_column:
  "fst (create_spending_trend_chart
      [\<lparr>date = Timestamp 2024 1 5, amount = - 50, category = ''Food'', month = None\<rparr>]) =
     [\<lparr>date = Timestamp 2024 1 5, amount = - 50, category = ''Food'',
       month = Some (2024, 1)\<rparr>] \<and>
   fst (create_spending_trend_chart
      [\<lparr>date = Timestamp 2024 1 5, amount = - 50, category = ''Food'', month = None\<rparr>]) \<noteq>
     [\<lparr>date = Timestamp 2024 1 5, amount = - 50, category = ''Food'', month = None\<rparr>]"
  by (simp add: create_spending_trend_chart_def Let_def to_datetime_def)

end
